theory Spec2Isabelle
  imports Main "HOL-Library.Multiset" "HOL-Library.Word"
begin

section \<open>Three-component vectors\<close>

text \<open>
  The notebook \<^verbatim>\<open>training_loads_at_centroid.ipynb\<close> works with triples: Python tuples
  (\<^verbatim>\<open>point_a = ax, ay, az = 0, 0, 1500\<close>) and numpy arrays of three numbers
  (\<^verbatim>\<open>Fa = array([Fax, Fay, Faz])\<close>). Both are a \<open>vec3\<close>. Its components are read with
  \<open>vx\<close>, \<open>vy\<close>, \<open>vz\<close>, the notebook's indices 0, 1 and 2.

  The component type is left open. The notebook's literals are Python integers, numpy
  stores them as signed 64-bit integers, and the specification speaks of real numbers:
  each is a commutative ring. The worked scenarios are evaluated over \<open>int\<close>; every
  number in them is far below \<open>2 ^ 31\<close>. Where the manual cell, which computes on
  Python's unbounded integers, is compared with the vector cell, which computes on
  numpy's 64-bit ones, the vector cell is taken over \<open>64 word\<close>.
\<close>

datatype 'a vec3 = Vec3 (vx: 'a) (vy: 'a) (vz: 'a)

text \<open>numpy's \<^verbatim>\<open>+\<close> and \<^verbatim>\<open>-\<close> on arrays of equal shape work component by component.\<close>

instantiation vec3 :: (ab_group_add) ab_group_add
begin

definition zero_vec3 :: "'a vec3" where
  "zero_vec3 = Vec3 0 0 0"

definition plus_vec3 :: "'a vec3 \<Rightarrow> 'a vec3 \<Rightarrow> 'a vec3" where
  "plus_vec3 u v = Vec3 (vx u + vx v) (vy u + vy v) (vz u + vz v)"

definition uminus_vec3 :: "'a vec3 \<Rightarrow> 'a vec3" where
  "uminus_vec3 u = Vec3 (- vx u) (- vy u) (- vz u)"

definition minus_vec3 :: "'a vec3 \<Rightarrow> 'a vec3 \<Rightarrow> 'a vec3" where
  "minus_vec3 u v = Vec3 (vx u - vx v) (vy u - vy v) (vz u - vz v)"

instance
proof
  fix u v w :: "'a vec3"
  show "u + v + w = u + (v + w)"
    by (simp add: plus_vec3_def add.assoc)
  show "u + v = v + u"
    by (simp add: plus_vec3_def add.commute)
  show "0 + u = u"
    by (simp add: plus_vec3_def zero_vec3_def)
  show "- u + u = 0"
    by (simp add: plus_vec3_def uminus_vec3_def zero_vec3_def)
  show "u - v = u + - v"
    by (simp add: plus_vec3_def uminus_vec3_def minus_vec3_def)
qed

end

text \<open>
  \<^verbatim>\<open>numpy.cross\<close> on two vectors of three components:
  \<^verbatim>\<open>(a1*b2 - a2*b1, a2*b0 - a0*b2, a0*b1 - a1*b0)\<close>.
\<close>

definition cross :: "'a::comm_ring_1 vec3 \<Rightarrow> 'a vec3 \<Rightarrow> 'a vec3" where
  "cross a b = Vec3 (vy a * vz b - vz a * vy b)
                    (vz a * vx b - vx a * vz b)
                    (vx a * vy b - vy a * vx b)"

section \<open>The notebook's cells\<close>

text \<open>
  Each code cell is a function of the variables it reads, so that it can be evaluated on
  the notebook's data and on any other.

  The manual force sum:
  \<^verbatim>\<open>
  Fcx = Fax + Fbx
  Fcy = Fay + Fby
  Fcz = Faz + Fbz
  \<close>
\<close>

definition Fc_manual :: "'a::comm_ring_1 \<Rightarrow> 'a \<Rightarrow> 'a \<Rightarrow> 'a \<Rightarrow> 'a \<Rightarrow> 'a \<Rightarrow> 'a vec3" where
  "Fc_manual Fax Fay Faz Fbx Fby Fbz =
     (let Fcx = Fax + Fbx;
          Fcy = Fay + Fby;
          Fcz = Faz + Fbz
      in Vec3 Fcx Fcy Fcz)"

text \<open>
  The vector force sum:
  \<^verbatim>\<open>
  Fa = array([Fax, Fay, Faz])
  Fb = array([Fbx, Fby, Fbz])
  Fc = Fa + Fb
  \<close>
\<close>

definition Fc_vector :: "'a::comm_ring_1 \<Rightarrow> 'a \<Rightarrow> 'a \<Rightarrow> 'a \<Rightarrow> 'a \<Rightarrow> 'a \<Rightarrow> 'a vec3" where
  "Fc_vector Fax Fay Faz Fbx Fby Fbz =
     (let Fa = Vec3 Fax Fay Faz;
          Fb = Vec3 Fbx Fby Fbz
      in Fa + Fb)"

text \<open>
  The offset from the centroid to a load point:
  \<^verbatim>\<open>
  CA = CAx, CAy, CAz = (ax - cx, ay - cy, az - cz)
  CB = CBx, CBy, CBz = (bx - cx, by - cy, bz - cz)
  \<close>
\<close>

definition centroid_to :: "'a::comm_ring_1 vec3 \<Rightarrow> 'a vec3 \<Rightarrow> 'a vec3" where
  "centroid_to point_c p = Vec3 (vx p - vx point_c) (vy p - vy point_c) (vz p - vz point_c)"

text \<open>
  The manual moment sum. Python's unary minus binds tighter than \<^verbatim>\<open>*\<close>.
  \<^verbatim>\<open>
  Mcx = (-Fay * CAz) - (Fby * CBz) + (Fbz * CBy)
  Mcy = (Fax * CAz) + (Fbx * CBz)
  Mcz = (-Fbx * CBy)
  \<close>
\<close>

definition Mc_manual ::
  "'a::comm_ring_1 vec3 \<Rightarrow> 'a vec3 \<Rightarrow> 'a vec3 \<Rightarrow> 'a vec3 \<Rightarrow> 'a vec3 \<Rightarrow> 'a vec3" where
  "Mc_manual point_a point_b point_c Fa Fb =
     (let CA = centroid_to point_c point_a;
          CB = centroid_to point_c point_b;
          Mcx = ((- vy Fa) * vz CA) - (vy Fb * vz CB) + (vz Fb * vy CB);
          Mcy = (vx Fa * vz CA) + (vx Fb * vz CB);
          Mcz = ((- vx Fb) * vy CB)
      in Vec3 Mcx Mcy Mcz)"

text \<open>
  The vector moment sum:
  \<^verbatim>\<open>
  Mc = cross(CA, Fa) + cross(CB, Fb)
  \<close>
\<close>

definition Mc_vector ::
  "'a::comm_ring_1 vec3 \<Rightarrow> 'a vec3 \<Rightarrow> 'a vec3 \<Rightarrow> 'a vec3 \<Rightarrow> 'a vec3 \<Rightarrow> 'a vec3" where
  "Mc_vector point_a point_b point_c Fa Fb =
     (let CA = centroid_to point_c point_a;
          CB = centroid_to point_c point_b
      in cross CA Fa + cross CB Fb)"

text \<open>
  The same cell with numpy's storage written out. \<^verbatim>\<open>CA\<close> and \<^verbatim>\<open>CB\<close> are tuples of
  Python integers, computed exactly; \<^verbatim>\<open>cross\<close> turns them into arrays of signed 64-bit
  integers, as \<^verbatim>\<open>array\<close> does with the forces. The products and sums of \<^verbatim>\<open>cross\<close> and
  \<^verbatim>\<open>+\<close> then wrap around at 64 bits, and the result is read as signed. An integer
  outside the signed 64-bit range is not stored this way by numpy, so the model is the
  cell only on inputs that fit.
\<close>

definition in_int64 :: "int \<Rightarrow> bool" where
  "in_int64 k \<longleftrightarrow> - (2 ^ 63) \<le> k \<and> k < 2 ^ 63"

definition fits_int64 :: "int vec3 \<Rightarrow> bool" where
  "fits_int64 v \<longleftrightarrow> in_int64 (vx v) \<and> in_int64 (vy v) \<and> in_int64 (vz v)"

definition int64_array :: "int vec3 \<Rightarrow> 64 word vec3" where
  "int64_array v = Vec3 (word_of_int (vx v)) (word_of_int (vy v)) (word_of_int (vz v))"

definition int64_values :: "64 word vec3 \<Rightarrow> int vec3" where
  "int64_values w = Vec3 (sint (vx w)) (sint (vy w)) (sint (vz w))"

definition Mc_vector_int64 ::
  "int vec3 \<Rightarrow> int vec3 \<Rightarrow> int vec3 \<Rightarrow> int vec3 \<Rightarrow> int vec3 \<Rightarrow> int vec3" where
  "Mc_vector_int64 point_a point_b point_c Fa Fb =
     (let CA = centroid_to point_c point_a;
          CB = centroid_to point_c point_b
      in int64_values (cross (int64_array CA) (int64_array Fa)
                       + cross (int64_array CB) (int64_array Fb)))"

text \<open>
  A moment applied at point B:
  \<^verbatim>\<open>
  Mc_new = Mc + array([-1_500_000, 2_000_000, -3_200_000])
  \<close>
\<close>

definition Mc_new_of :: "'a::comm_ring_1 vec3 \<Rightarrow> 'a vec3 \<Rightarrow> 'a vec3" where
  "Mc_new_of Mc Mb = Mc + Mb"

subsection \<open>The notebook's data\<close>

definition point_a :: "int vec3" where "point_a = Vec3 0 0 1500"
definition point_b :: "int vec3" where "point_b = Vec3 0 800 1100"
definition point_c :: "int vec3" where "point_c = Vec3 0 0 0"

definition Fa :: "int vec3" where "Fa = Vec3 (- 1200) 2000 (- 3000)"
definition Fb :: "int vec3" where "Fb = Vec3 3200 1200 (- 1200)"

definition Fc :: "int vec3" where
  "Fc = Fc_vector (vx Fa) (vy Fa) (vz Fa) (vx Fb) (vy Fb) (vz Fb)"

definition Mc :: "int vec3" where
  "Mc = Mc_vector point_a point_b point_c Fa Fb"

definition Mc_new :: "int vec3" where
  "Mc_new = Mc_new_of Mc (Vec3 (- 1500000) 2000000 (- 3200000))"

section \<open>The general sums\<close>

text \<open>
  Modelled from the spec: a load of its data model, with a point, a force and a moment
  (the zero vector when only a force is applied). The notebook has no load type: its
  cells name the coordinates and forces of the points A and B one by one.
\<close>

record 'a load =
  position :: "'a vec3"
  force :: "'a vec3"
  moment :: "'a vec3"

text \<open>
  Modelled from the spec: the resultant force \<^verbatim>\<open>Fc = sum_i F_i\<close> of its section 4.1. The
  notebook has no function over a sequence of loads; it gives the same formula in its
  markdown and codes it for the two loads A and B.
\<close>

definition resultant_force :: "'a::comm_ring_1 load list \<Rightarrow> 'a vec3" where
  "resultant_force loads = sum_list (map force loads)"

text \<open>
  Modelled from the spec: the resultant moment
  \<^verbatim>\<open>Mc = sum_i M_i + sum_i ((P_i - reference) x F_i)\<close> of its section 4.1. The notebook has
  no function over a sequence of loads; it gives the same formula in its markdown and
  codes it for the two loads A and B. The offset and the cross product are the code's.
\<close>

definition resultant_moment :: "'a::comm_ring_1 vec3 \<Rightarrow> 'a load list \<Rightarrow> 'a vec3" where
  "resultant_moment c loads =
     sum_list (map moment loads)
     + sum_list (map (\<lambda>l. cross (centroid_to c (position l)) (force l)) loads)"

text \<open>
  Modelled from the spec: the pair of force and moment that its \<^verbatim>\<open>reduce\<close> returns on a
  sequence of loads. The notebook has no such function. The input checks of the
  specification are not part of it.
\<close>

definition reduction :: "'a::comm_ring_1 vec3 \<Rightarrow> 'a load list \<Rightarrow> 'a vec3 \<times> 'a vec3" where
  "reduction c loads = (resultant_force loads, resultant_moment c loads)"

text \<open>The loads of the worked scenarios.\<close>

definition load_a :: "int load" where
  "load_a = \<lparr>position = point_a, force = Fa, moment = 0\<rparr>"

definition load_b :: "int load" where
  "load_b = \<lparr>position = point_b, force = Fb, moment = 0\<rparr>"

definition load_b_new :: "int load" where
  "load_b_new =
     \<lparr>position = point_b, force = Fb, moment = Vec3 (- 1500000) 2000000 (- 3200000)\<rparr>"

section \<open>Vector algebra\<close>

lemma vec3_eq_iff: "u = v \<longleftrightarrow> vx u = vx v \<and> vy u = vy v \<and> vz u = vz v"
  by (cases u, cases v) simp

lemma vec3_plus_sel [simp]:
  "vx (u + v) = vx u + vx v" "vy (u + v) = vy u + vy v" "vz (u + v) = vz u + vz v"
  by (simp_all add: plus_vec3_def)

lemma vec3_minus_sel [simp]:
  "vx (u - v) = vx u - vx v" "vy (u - v) = vy u - vy v" "vz (u - v) = vz u - vz v"
  by (simp_all add: minus_vec3_def)

lemma vec3_uminus_sel [simp]:
  "vx (- u) = - vx u" "vy (- u) = - vy u" "vz (- u) = - vz u"
  by (simp_all add: uminus_vec3_def)

lemma vec3_zero_sel [simp]:
  "vx (0 :: 'a::ab_group_add vec3) = 0" "vy (0 :: 'a vec3) = 0" "vz (0 :: 'a vec3) = 0"
  by (simp_all add: zero_vec3_def)

lemma cross_sel [simp]:
  "vx (cross a b) = vy a * vz b - vz a * vy b"
  "vy (cross a b) = vz a * vx b - vx a * vz b"
  "vz (cross a b) = vx a * vy b - vy a * vx b"
  by (simp_all add: cross_def)

lemma centroid_to_minus: "centroid_to c p = p - c"
  by (simp add: centroid_to_def minus_vec3_def)

lemma cross_zero_left [simp]: "cross 0 f = 0"
  by (simp add: vec3_eq_iff)

lemma cross_swap: "cross b a = - cross a b"
  by (simp add: vec3_eq_iff mult.commute)

lemma cross_minus_left: "cross (u - v) f = cross u f - cross v f"
  by (simp add: vec3_eq_iff algebra_simps)

section \<open>The worked scenarios\<close>

lemma Fc_value: "Fc = Vec3 2000 3200 (- 4200)"
  by (simp add: Fc_def Fc_vector_def Fa_def Fb_def plus_vec3_def)

lemma Mc_value: "Mc = Vec3 (- 5280000) 1720000 (- 2560000)"
  by (simp add: Mc_def Mc_vector_def centroid_to_def cross_def plus_vec3_def
      point_a_def point_b_def point_c_def Fa_def Fb_def)

text \<open>
  C1. In scenario 1 the moment at the reference point is
  \<open>cross (0,0,1500) (-1200,2000,-3000) + cross (0,800,1100) (3200,1200,-1200)\<close>, which is
  \<open>(-5280000, 1720000, -2560000)\<close>, and the notebook's vector computation \<open>Mc\<close> gives
  exactly this value.
\<close>

theorem scenario1_moment:
  "cross (Vec3 0 0 1500) (Vec3 (- 1200) 2000 (- 3000))
     + cross (Vec3 0 800 1100) (Vec3 3200 1200 (- 1200))
     = Vec3 (- 5280000) 1720000 (- 2560000 :: int)
   \<and> Mc = cross (Vec3 0 0 1500) (Vec3 (- 1200) 2000 (- 3000))
          + cross (Vec3 0 800 1100) (Vec3 3200 1200 (- 1200))
   \<and> Mc = Vec3 (- 5280000) 1720000 (- 2560000)"
  by (simp add: Mc_value) (simp add: cross_def plus_vec3_def)

text \<open>
  C3. In scenario 1 the resultant force is the component-wise sum of the two applied
  forces, \<open>(2000, 3200, -4200)\<close>, by the manual component sums and by the vector addition
  alike.
\<close>

theorem scenario1_force:
  "Fc_manual (- 1200) 2000 (- 3000) 3200 1200 (- 1200) = Vec3 2000 3200 (- 4200 :: int)
   \<and> Fc = Fa + Fb
   \<and> Fc = Vec3 2000 3200 (- 4200)
   \<and> Fc = Vec3 (vx Fa + vx Fb) (vy Fa + vy Fb) (vz Fa + vz Fb)"
  by (simp add: Fc_value) (simp add: Fc_manual_def Fa_def Fb_def plus_vec3_def)

text \<open>
  C4. In scenario 2 the moment \<open>(-1500000, 2000000, -3200000)\<close> applied at B is added to
  \<open>Mc\<close> as it is: \<open>Mc_new = Mc + (-1500000, 2000000, -3200000)\<close>, which is
  \<open>(-6780000, 3720000, -5760000)\<close>. The force stays \<open>(2000, 3200, -4200)\<close>. Whatever the
  points and the reference are, the moment at the reference grows by exactly the applied
  moment: no cross product is taken of it.
\<close>

theorem scenario2_moment:
  "Mc_new = Mc + Vec3 (- 1500000) 2000000 (- 3200000)
   \<and> Mc_new = Vec3 (- 6780000) 3720000 (- 5760000)
   \<and> Fc = Vec3 2000 3200 (- 4200)
   \<and> Mc_new_of (Mc_vector pa pb c fa fb) mb - Mc_vector pa pb c fa fb = mb"
  by (simp add: Mc_new_def Mc_new_of_def Mc_value Fc_value) (simp add: plus_vec3_def)

section \<open>The cells on any data\<close>

lemma Mc_vector_cross:
  "Mc_vector pa pb c fa fb = cross (pa - c) fa + cross (pb - c) fb"
  by (simp add: Mc_vector_def centroid_to_minus)

text \<open>
  What the manual cell leaves out: it has no term in \<open>CAx\<close>, \<open>CAy\<close> or \<open>CBx\<close>, which are
  all zero for the points A and B of the notebook.
\<close>

lemma Mc_manual_residue:
  "Mc_vector pa pb c fa fb - Mc_manual pa pb c fa fb =
     Vec3 (vy (pa - c) * vz fa)
          (- (vx (pa - c) * vz fa) - vx (pb - c) * vz fb)
          (vx (pa - c) * vy fa - vy (pa - c) * vx fa + vx (pb - c) * vy fb)"
  by (simp add: Mc_manual_def Mc_vector_def Let_def centroid_to_minus vec3_eq_iff
      algebra_simps)

lemma manual_eq_vector_exact:
  assumes "vx (centroid_to c pa) = 0" and "vy (centroid_to c pa) = 0"
    and "vx (centroid_to c pb) = 0"
  shows "Mc_manual pa pb c fa fb = Mc_vector pa pb c fa fb"
  using assms
  by (simp add: Mc_manual_def Mc_vector_def Let_def vec3_eq_iff mult.commute)

subsection \<open>The vector cell on 64-bit integers\<close>

lemma int64_array_plus: "int64_array u + int64_array v = int64_array (u + v)"
  by (simp add: int64_array_def vec3_eq_iff)

lemma int64_array_cross: "cross (int64_array u) (int64_array v) = int64_array (cross u v)"
  by (simp add: int64_array_def vec3_eq_iff)

lemma sint_in_int64: "in_int64 k \<Longrightarrow> sint (word_of_int k :: 64 word) = k"
  by (simp add: in_int64_def sint_sbintrunc' signed_take_bit_int_eq_self)

lemma int64_values_array: "fits_int64 v \<Longrightarrow> int64_values (int64_array v) = v"
  by (simp add: fits_int64_def int64_values_def int64_array_def sint_in_int64 vec3_eq_iff)

text \<open>The 64-bit cell gives the exact moment, wrapped around.\<close>

lemma Mc_vector_int64_wraps:
  "Mc_vector_int64 pa pb c fa fb = int64_values (int64_array (Mc_vector pa pb c fa fb))"
  by (simp add: Mc_vector_int64_def Mc_vector_def Let_def int64_array_cross int64_array_plus)

lemma Mc_vector_int64_exact:
  "fits_int64 (Mc_vector pa pb c fa fb) \<Longrightarrow>
     Mc_vector_int64 pa pb c fa fb = Mc_vector pa pb c fa fb"
  by (simp add: Mc_vector_int64_wraps int64_values_array)

lemma Mc_vector_int64_scenario1: "Mc_vector_int64 point_a point_b point_c Fa Fb = Mc"
proof -
  have "fits_int64 Mc"
    by (simp add: Mc_value fits_int64_def in_int64_def)
  then show ?thesis
    by (simp add: Mc_def Mc_vector_int64_exact)
qed

text \<open>
  Past 64 bits the two cells part even where the manual cell leaves nothing out: with A
  at \<open>(0, 0, 2 ^ 32)\<close> and the force \<open>(2 ^ 32, 0, 0)\<close> on it, the manual cell gives
  \<open>2 ^ 64\<close> for \<open>Mcy\<close> and numpy gives 0.
\<close>

lemma int64_wrap_example:
  "Mc_manual (Vec3 0 0 (2 ^ 32)) (Vec3 0 0 0) (Vec3 0 0 0) (Vec3 (2 ^ 32) 0 0) (Vec3 0 0 0)
     = Vec3 0 (2 ^ 64) (0 :: int)
   \<and> Mc_vector_int64 (Vec3 0 0 (2 ^ 32)) (Vec3 0 0 0) (Vec3 0 0 0) (Vec3 (2 ^ 32) 0 0)
       (Vec3 0 0 0)
     = Vec3 0 0 0"
  by (simp add: Mc_manual_def Mc_vector_int64_def centroid_to_def cross_def plus_vec3_def
      int64_array_def int64_values_def)

text \<open>
  The manual cell run on the data of exercise 3.2, with point E \<open>(600, 0, 1250)\<close> and its
  force \<open>(3300, 2860, -4280)\<close> in the place of A: the two cells differ in their second
  and third components, over the integers and on numpy's 64-bit integers alike.
\<close>

theorem manual_counterexample:
  "Mc_manual (Vec3 600 0 1250) (Vec3 0 800 1100) (Vec3 0 0 0)
     (Vec3 3300 2860 (- 4280)) (Vec3 3200 1200 (- 1200))
     = Vec3 (- 5855000) 7645000 (- 2560000 :: int)
   \<and> Mc_vector (Vec3 600 0 1250) (Vec3 0 800 1100) (Vec3 0 0 0)
     (Vec3 3300 2860 (- 4280)) (Vec3 3200 1200 (- 1200))
     = Vec3 (- 5855000) 10213000 (- 844000 :: int)
   \<and> Mc_manual (Vec3 600 0 1250) (Vec3 0 800 1100) (Vec3 0 0 0)
       (Vec3 3300 2860 (- 4280)) (Vec3 3200 1200 (- 1200))
     \<noteq> Mc_vector (Vec3 600 0 1250) (Vec3 0 800 1100) (Vec3 (0::int) 0 0)
       (Vec3 3300 2860 (- 4280)) (Vec3 3200 1200 (- 1200))
   \<and> Mc_vector_int64 (Vec3 600 0 1250) (Vec3 0 800 1100) (Vec3 0 0 0)
     (Vec3 3300 2860 (- 4280)) (Vec3 3200 1200 (- 1200))
     = Vec3 (- 5855000) 10213000 (- 844000)
   \<and> Mc_manual (Vec3 600 0 1250) (Vec3 0 800 1100) (Vec3 0 0 0)
       (Vec3 3300 2860 (- 4280)) (Vec3 3200 1200 (- 1200))
     \<noteq> Mc_vector_int64 (Vec3 600 0 1250) (Vec3 0 800 1100) (Vec3 0 0 0)
       (Vec3 3300 2860 (- 4280)) (Vec3 3200 1200 (- 1200))"
proof -
  have v: "Mc_vector (Vec3 600 0 1250) (Vec3 0 800 1100) (Vec3 0 0 0)
      (Vec3 3300 2860 (- 4280)) (Vec3 3200 1200 (- 1200))
      = Vec3 (- 5855000) 10213000 (- 844000 :: int)"
    by (simp add: Mc_vector_def centroid_to_def cross_def plus_vec3_def)
  then have "fits_int64 (Mc_vector (Vec3 600 0 1250) (Vec3 0 800 1100) (Vec3 0 0 0)
      (Vec3 3300 2860 (- 4280)) (Vec3 3200 1200 (- 1200)))"
    by (simp add: fits_int64_def in_int64_def)
  then have w: "Mc_vector_int64 (Vec3 600 0 1250) (Vec3 0 800 1100) (Vec3 0 0 0)
      (Vec3 3300 2860 (- 4280)) (Vec3 3200 1200 (- 1200))
      = Vec3 (- 5855000) 10213000 (- 844000)"
    using v by (simp add: Mc_vector_int64_exact)
  have m: "Mc_manual (Vec3 600 0 1250) (Vec3 0 800 1100) (Vec3 0 0 0)
      (Vec3 3300 2860 (- 4280)) (Vec3 3200 1200 (- 1200))
      = Vec3 (- 5855000) 7645000 (- 2560000 :: int)"
    by (simp add: Mc_manual_def centroid_to_def)
  show ?thesis
    by (simp add: v w m)
qed

text \<open>
  C2, amended. The manual component-by-component moment cell, on Python's integers, and
  the vector cell, on numpy's signed 64-bit integers, give the same moment on every
  input whose offsets have \<open>CAx = 0\<close>, \<open>CAy = 0\<close> and \<open>CBx = 0\<close> (point A straight above
  the reference along z, point B in the reference's y-z plane), whose offsets and
  forces fit in 64 bits, and whose moment, as the manual cell computes it, fits in 64
  bits. The scenario-1 data is such an input.
\<close>

theorem manual_agrees_with_vector:
  assumes "vx (centroid_to c pa) = 0" and "vy (centroid_to c pa) = 0"
    and "vx (centroid_to c pb) = 0"
    and "fits_int64 (centroid_to c pa)" and "fits_int64 (centroid_to c pb)"
    and "fits_int64 fa" and "fits_int64 fb"
    and "fits_int64 (Mc_manual pa pb c fa fb)"
  shows "Mc_vector_int64 pa pb c fa fb = Mc_manual pa pb c fa fb"
proof -
  have e: "Mc_manual pa pb c fa fb = Mc_vector pa pb c fa fb"
    using assms(1-3) by (rule manual_eq_vector_exact)
  then have "fits_int64 (Mc_vector pa pb c fa fb)"
    using assms(8) by simp
  then show ?thesis
    using e by (simp add: Mc_vector_int64_exact)
qed

theorem manual_agrees_with_vector_witness:
  "vx (centroid_to point_c point_a) = 0 \<and> vy (centroid_to point_c point_a) = 0
   \<and> vx (centroid_to point_c point_b) = 0
   \<and> fits_int64 (centroid_to point_c point_a) \<and> fits_int64 (centroid_to point_c point_b)
   \<and> fits_int64 Fa \<and> fits_int64 Fb
   \<and> fits_int64 (Mc_manual point_a point_b point_c Fa Fb)
   \<and> Mc_vector_int64 point_a point_b point_c Fa Fb = Mc_manual point_a point_b point_c Fa Fb
   \<and> Mc_manual point_a point_b point_c Fa Fb = Vec3 (- 5280000) 1720000 (- 2560000)"
proof -
  have a: "vx (centroid_to point_c point_a) = 0" "vy (centroid_to point_c point_a) = 0"
    and b: "vx (centroid_to point_c point_b) = 0"
    by (simp_all add: centroid_to_def point_a_def point_b_def point_c_def)
  have f: "fits_int64 (centroid_to point_c point_a)" "fits_int64 (centroid_to point_c point_b)"
    "fits_int64 Fa" "fits_int64 Fb"
    by (simp_all add: fits_int64_def in_int64_def centroid_to_def point_a_def point_b_def
        point_c_def Fa_def Fb_def)
  have v: "Mc_manual point_a point_b point_c Fa Fb = Vec3 (- 5280000) 1720000 (- 2560000)"
    by (simp add: Mc_manual_def centroid_to_def point_a_def point_b_def point_c_def
        Fa_def Fb_def)
  then have m: "fits_int64 (Mc_manual point_a point_b point_c Fa Fb)"
    by (simp add: fits_int64_def in_int64_def)
  show ?thesis
    using a b f m v manual_agrees_with_vector [OF a b f m] by simp
qed

text \<open>
  C5. The offset in each cross product is the load's point minus the reference point,
  component by component, and the cross product has the offset on the left and the
  force on the right.
\<close>

theorem offset_convention:
  "centroid_to c p = p - c
   \<and> centroid_to c p = Vec3 (vx p - vx c) (vy p - vy c) (vz p - vz c)
   \<and> Mc_vector pa pb c fa fb = cross (pa - c) fa + cross (pb - c) fb"
  by (simp add: Mc_vector_cross) (simp add: centroid_to_def minus_vec3_def)

text \<open>
  Either other convention gives the opposite moment, which on the notebook's data is a
  different vector.
\<close>

lemma offset_reversed:
  "cross (c - pa) fa + cross (c - pb) fb = - Mc_vector pa pb c fa fb"
  by (simp add: Mc_vector_cross vec3_eq_iff algebra_simps)

lemma operands_swapped:
  "cross fa (pa - c) + cross fb (pb - c) = - Mc_vector pa pb c fa fb"
  by (simp add: Mc_vector_cross cross_swap [of _ fa] cross_swap [of _ fb])

lemma opposite_moment_differs: "- Mc \<noteq> Mc"
  by (simp add: Mc_value uminus_vec3_def)

section \<open>The general sums on the notebook's loads\<close>

text \<open>On two loads, the second with a moment, the general sums are the notebook's cells.\<close>

lemma reduction_two_loads:
  "reduction c [\<lparr>position = pa, force = fa, moment = 0\<rparr>,
                \<lparr>position = pb, force = fb, moment = mb\<rparr>]
   = (Fc_vector (vx fa) (vy fa) (vz fa) (vx fb) (vy fb) (vz fb),
      Mc_new_of (Mc_vector pa pb c fa fb) mb)"
  by (simp add: reduction_def resultant_force_def resultant_moment_def Fc_vector_def
      Mc_new_of_def Mc_vector_def Let_def add_ac)

lemma reduction_scenario1: "reduction point_c [load_a, load_b] = (Fc, Mc)"
  using reduction_two_loads [of point_c point_a Fa point_b Fb 0]
  by (simp add: load_a_def load_b_def Fc_def Mc_def Mc_new_of_def)

lemma reduction_scenario2: "reduction point_c [load_a, load_b_new] = (Fc, Mc_new)"
  using reduction_two_loads [of point_c point_a Fa point_b Fb]
  by (simp add: load_a_def load_b_new_def Fc_def Mc_def Mc_new_def)

lemma sum_list_map_mset:
  fixes g :: "'b \<Rightarrow> 'c::comm_monoid_add"
  assumes "mset us = mset vs"
  shows "sum_list (map g us) = sum_list (map g vs)"
proof -
  have "sum_list (map g us) = sum_mset (image_mset g (mset us))"
    by (simp flip: sum_mset_sum_list)
  also have "\<dots> = sum_mset (image_mset g (mset vs))"
    using assms by simp
  also have "\<dots> = sum_list (map g vs)"
    by (simp flip: sum_mset_sum_list)
  finally show ?thesis .
qed

lemma offset_terms_vanish:
  assumes "\<forall>l\<in>set loads. position l = c"
  shows "sum_list (map (\<lambda>l. cross (centroid_to c (position l)) (force l)) loads) = 0"
  using assms by (induction loads) (simp_all add: centroid_to_minus)

text \<open>
  C6. When every load sits at the reference point, the resultant moment is the sum of
  the loads' own applied moments, and each cross-product term is the zero vector.
\<close>

theorem zero_offset_identity:
  assumes "\<forall>l\<in>set loads. position l = c"
  shows "snd (reduction c loads) = sum_list (map moment loads)
         \<and> (\<forall>l\<in>set loads. cross (centroid_to c (position l)) (force l) = 0)"
  using assms offset_terms_vanish [OF assms]
  by (simp add: reduction_def resultant_moment_def centroid_to_minus)

theorem zero_offset_identity_witness:
  "position \<lparr>position = point_b, force = Fa, moment = 0\<rparr> = point_b
   \<and> position load_b_new = point_b
   \<and> snd (reduction point_b [\<lparr>position = point_b, force = Fa, moment = 0\<rparr>, load_b_new])
       = sum_list (map moment [\<lparr>position = point_b, force = Fa, moment = 0\<rparr>, load_b_new])
   \<and> snd (reduction point_b [\<lparr>position = point_b, force = Fa, moment = 0\<rparr>, load_b_new])
       = Vec3 (- 1500000) 2000000 (- 3200000)"
  using zero_offset_identity
    [of "[\<lparr>position = point_b, force = Fa, moment = 0\<rparr>, load_b_new]" point_b]
  by (simp add: load_b_new_def zero_vec3_def plus_vec3_def)

text \<open>
  C7. The resultant force is the same for every reference point: the reference enters
  the resultant moment only.
\<close>

theorem force_reference_invariant:
  "fst (reduction c1 loads) = fst (reduction c2 loads)"
  by (simp add: reduction_def)

text \<open>
  The moment does move with the reference: by the cross product of the shift and the
  resultant force.
\<close>

lemma moment_transfer:
  "snd (reduction c2 loads) =
     snd (reduction c1 loads) + cross (c1 - c2) (fst (reduction c1 loads))"
proof -
  have "sum_list (map (\<lambda>l. cross (centroid_to c2 (position l)) (force l)) loads)
      = sum_list (map (\<lambda>l. cross (centroid_to c1 (position l)) (force l)) loads)
        + cross (c1 - c2) (sum_list (map force loads))"
    by (induction loads) (simp_all add: centroid_to_minus vec3_eq_iff algebra_simps)
  then show ?thesis
    by (simp add: reduction_def resultant_moment_def resultant_force_def add.assoc)
qed

lemma moment_depends_on_reference:
  "snd (reduction point_c [load_a, load_b]) \<noteq> snd (reduction point_a [load_a, load_b])"
  by (simp add: reduction_def resultant_moment_def centroid_to_def cross_def plus_vec3_def
      zero_vec3_def load_a_def load_b_def point_a_def point_b_def point_c_def Fa_def Fb_def)

text \<open>
  C8. For every reference point and loads L1, L2, the force of reducing \<open>[L1, L2]\<close> is
  the sum of the forces of reducing \<open>[L1]\<close> and \<open>[L2]\<close>.
\<close>

theorem force_additive:
  "fst (reduction c [L1, L2]) = fst (reduction c [L1]) + fst (reduction c [L2])"
  by (simp add: reduction_def resultant_force_def)

text \<open>
  C9. A permutation of the load sequence changes neither the resultant force nor the
  resultant moment.
\<close>

theorem order_independent:
  assumes "mset xs = mset ys"
  shows "reduction c xs = reduction c ys"
  using assms
  by (simp add: reduction_def resultant_force_def resultant_moment_def
      sum_list_map_mset [OF assms])

theorem order_independent_witness:
  "mset [load_a, load_b_new] = mset [load_b_new, load_a]
   \<and> reduction point_c [load_a, load_b_new] = reduction point_c [load_b_new, load_a]
   \<and> reduction point_c [load_b_new, load_a] = (Fc, Mc_new)"
proof -
  have m: "mset [load_a, load_b_new] = mset [load_b_new, load_a]"
    by (simp add: add.commute)
  show ?thesis
    using m order_independent [OF m, of point_c] by (simp add: reduction_scenario2)
qed

end
